theory Spec2Isabelle
  imports Main "HOL-Library.Word"
begin

unbundle bit_operations_syntax

section \<open>JavaScript values used by \<^verbatim>\<open>lib/utils/xpack.js\<close>\<close>

text \<open>
  A JavaScript string is modelled as a \<^typ>\<open>string\<close>, one \<^typ>\<open>char\<close> per code unit
  (code units below 256). A property that may be missing is an \<open>option\<close>: \<open>None\<close> is
  JavaScript's \<^verbatim>\<open>undefined\<close>. The manifest fields carry the JSON types that the
  manifest format gives them (strings, a boolean flag, a number or a string for the
  strip depth, objects for the sections); a manifest that puts a value of another
  JSON type in a field is outside the model.
\<close>

datatype exit_code = INPUT

datatype error =
    CliError string exit_code
  | TypeError
  | ExternalError string

text \<open>Truthiness of a possibly missing string: \<^verbatim>\<open>undefined\<close> and \<^verbatim>\<open>''\<close> are falsy.\<close>

definition truthy :: "string option \<Rightarrow> bool" where
  "truthy v = (case v of None \<Rightarrow> False | Some s \<Rightarrow> s \<noteq> [])"

text \<open>\<^verbatim>\<open>a || b\<close> on possibly missing strings.\<close>

definition or_else :: "string option \<Rightarrow> string option \<Rightarrow> string option" where
  "or_else a b = (if truthy a then a else b)"

text \<open>A template literal \<^verbatim>\<open>`${v}`\<close> prints a missing value as the text \<^verbatim>\<open>undefined\<close>.\<close>

definition tmpl :: "string option \<Rightarrow> string" where
  "tmpl v = (case v of None \<Rightarrow> ''undefined'' | Some s \<Rightarrow> s)"

text \<open>\<^verbatim>\<open>s.startsWith(c)\<close> and \<^verbatim>\<open>s.endsWith(c)\<close> for a one-character argument.\<close>

definition startsWith :: "string \<Rightarrow> char \<Rightarrow> bool" where
  "startsWith s c = (case s of [] \<Rightarrow> False | x # _ \<Rightarrow> x = c)"

definition endsWith :: "string \<Rightarrow> char \<Rightarrow> bool" where
  "endsWith s c = (case rev s of [] \<Rightarrow> False | x # _ \<Rightarrow> x = c)"

text \<open>
  \<^verbatim>\<open>s.split(sep)\<close> for a one-character separator: the string is cut at every
  occurrence of the separator; the result always has at least one segment.
\<close>

fun js_split :: "char \<Rightarrow> string \<Rightarrow> string list" where
  "js_split sep [] = [[]]"
| "js_split sep (c # cs) =
     (if c = sep then [] # js_split sep cs
      else (case js_split sep cs of
              [] \<Rightarrow> [[c]]
            | seg # segs \<Rightarrow> (c # seg) # segs))"

text \<open>\<^verbatim>\<open>arr[i]\<close>: reading past the end of an array gives \<^verbatim>\<open>undefined\<close>.\<close>

definition at :: "'a list \<Rightarrow> nat \<Rightarrow> 'a option" where
  "at arr i = (if i < length arr then Some (arr ! i) else None)"


section \<open>The manifest\<close>

record platform_entry =
  pe_fileName :: "string option"
  pe_baseUrl :: "string option"
  pe_sha256 :: "string option"
  pe_sha512 :: "string option"
  pe_skip :: "bool option"

datatype skip_value = SkipNumber int | SkipString string

record binaries =
  bin_baseUrl :: "string option"
  bin_destination :: "string option"
  bin_skip :: "skip_value option"
  bin_platforms :: "(string \<rightharpoonup> platform_entry) option"

record xpack_section =
  xp_binaries :: "binaries option"

record manifest =
  m_name :: "string option"
  m_version :: "string option"
  m_from :: "string option"
  m_xpack :: "xpack_section option"


section \<open>\<^verbatim>\<open>class ManifestId\<close>\<close>

record manifest_id =
  scope :: "string option"
  name :: "string option"
  version :: "string option"

text \<open>
  The constructor (source lines 297-310); \<open>ident\<close> is the source's \<^verbatim>\<open>id\<close>.
  \<^verbatim>\<open>id.startsWith\<close> on a missing \<^verbatim>\<open>_from\<close> and \<^verbatim>\<open>arr[1].split\<close> on a missing second
  segment are calls on \<^verbatim>\<open>undefined\<close>: they throw a TypeError. In the unscoped branch
  \<^verbatim>\<open>this.scope\<close> is never assigned.
\<close>

definition ManifestId :: "manifest \<Rightarrow> error + manifest_id" where
  "ManifestId manifest =
     (case m_from manifest of
        None \<Rightarrow> Inl TypeError
      | Some ident \<Rightarrow>
          if startsWith ident CHR ''@'' then
            (let arr = js_split CHR ''/'' ident in
             case at arr 1 of
               None \<Rightarrow> Inl TypeError
             | Some seg \<Rightarrow>
                 (let arr2 = js_split CHR ''@'' seg in
                  Inr \<lparr> scope = at arr 0,
                        name = at arr2 0,
                        version = or_else (at arr2 1) (m_version manifest) \<rparr>))
          else
            (let arr2 = js_split CHR ''@'' ident in
             Inr \<lparr> scope = None,
                   name = at arr2 0,
                   version = or_else (at arr2 1) (m_version manifest) \<rparr>))"

text \<open>\<^verbatim>\<open>getFullName\<close> (source lines 337-343).\<close>

definition getFullName :: "manifest_id \<Rightarrow> string" where
  "getFullName this =
     (if truthy (scope this)
      then tmpl (scope this) @ ''/'' @ tmpl (name this) @ ''@'' @ tmpl (version this)
      else tmpl (name this) @ ''@'' @ tmpl (version this))"

text \<open>
  The parsing algorithm in the words of the specification, for comparison with the
  constructor: a scoped descriptor is cut at its first \<^verbatim>\<open>/\<close> into the scope part and
  the rest, the rest (or an unscoped descriptor) at its first \<^verbatim>\<open>@\<close> into the name part
  and the version part.
\<close>

definition split_first :: "char \<Rightarrow> string \<Rightarrow> string \<times> string" where
  "split_first c s = (takeWhile (\<lambda>x. x \<noteq> c) s, drop 1 (dropWhile (\<lambda>x. x \<noteq> c) s))"

definition spec_ManifestId :: "string \<Rightarrow> string option \<Rightarrow> manifest_id" where
  "spec_ManifestId ident fallbackVersion =
     (if startsWith ident CHR ''@'' then
        (let (scopePart, rest) = split_first CHR ''/'' ident;
             (namePart, versionPart) = split_first CHR ''@'' rest
         in \<lparr> scope = Some scopePart, name = Some namePart,
              version = (if versionPart \<noteq> [] then Some versionPart else fallbackVersion) \<rparr>)
      else
        (let (namePart, versionPart) = split_first CHR ''@'' ident
         in \<lparr> scope = None, name = Some namePart,
              version = (if versionPart \<noteq> [] then Some versionPart else fallbackVersion) \<rparr>))"


section \<open>Numbers and \<^verbatim>\<open>parseInt\<close>\<close>

text \<open>
  The value \<^verbatim>\<open>parseInt\<close> returns: \<^verbatim>\<open>NaN\<close> or an integer (the rounding of integers
  beyond \<open>2^53\<close> to a double is not modelled).
\<close>

datatype js_number = NaN | Num int

fun show_nat :: "nat \<Rightarrow> string" where
  "show_nat n =
     (if n < 10 then [''0123456789'' ! n]
      else show_nat (n div 10) @ [''0123456789'' ! (n mod 10)])"

definition show_int :: "int \<Rightarrow> string" where
  "show_int i = (if i < 0 then CHR ''-'' # show_nat (nat (- i)) else show_nat (nat i))"

text \<open>A number inside a template literal.\<close>

definition number_toString :: "js_number \<Rightarrow> string" where
  "number_toString n = (case n of NaN \<Rightarrow> ''NaN'' | Num i \<Rightarrow> show_int i)"

text \<open>White space that \<^verbatim>\<open>parseInt\<close> skips: TAB, LF, VT, FF, CR, SP, NBSP.\<close>

definition is_space :: "char \<Rightarrow> bool" where
  "is_space c = (of_char c \<in> {9, 10, 11, 12, 13, 32, 160 :: nat})"

text \<open>The value of a digit in radix up to 36; 36 for a character that is no digit.\<close>

definition digit_value :: "char \<Rightarrow> nat" where
  "digit_value c =
     (let n = (of_char c :: nat) in
      if 48 \<le> n \<and> n \<le> 57 then n - 48
      else if 97 \<le> n \<and> n \<le> 122 then n - 87
      else if 65 \<le> n \<and> n \<le> 90 then n - 55
      else 36)"

text \<open>
  \<^verbatim>\<open>parseInt(string)\<close> with no radix argument (ECMAScript 18.2.5): skip leading white
  space, read an optional sign, read an optional \<^verbatim>\<open>0x\<close> or \<^verbatim>\<open>0X\<close> prefix (radix 16,
  otherwise radix 10), take the longest prefix of digits of that radix; if it is empty
  the result is \<^verbatim>\<open>NaN\<close>. No input makes \<^verbatim>\<open>parseInt\<close> throw.
\<close>

definition parseInt :: "string \<Rightarrow> js_number" where
  "parseInt inputString =
     (let S = dropWhile is_space inputString;
          (sign, S1) = (case S of
                          [] \<Rightarrow> (1 :: int, S)
                        | c # r \<Rightarrow> if c = CHR ''-'' then (- 1, r)
                                  else if c = CHR ''+'' then (1, r) else (1, S));
          (R, S2) = (case S1 of
                       a # b # r \<Rightarrow>
                         if a = CHR ''0'' \<and> (b = CHR ''x'' \<or> b = CHR ''X'')
                         then (16 :: nat, r) else (10, S1)
                     | _ \<Rightarrow> (10, S1));
          Z = takeWhile (\<lambda>c. digit_value c < R) S2
      in if Z = [] then NaN
         else Num (sign * int (foldl (\<lambda>acc c. acc * R + digit_value c) 0 Z)))"

text \<open>
  The value of \<^verbatim>\<open>xpack.binaries.skip\<close>: truthiness, and the string \<^verbatim>\<open>parseInt\<close> converts
  it to first (a number prints in decimal; numbers of magnitude \<open>10^21\<close> and more, which
  JavaScript prints with an exponent, are outside the model).
\<close>

definition skip_truthy :: "skip_value \<Rightarrow> bool" where
  "skip_truthy v = (case v of SkipNumber n \<Rightarrow> n \<noteq> 0 | SkipString s \<Rightarrow> s \<noteq> [])"

definition skip_toString :: "skip_value \<Rightarrow> string" where
  "skip_toString v = (case v of SkipNumber n \<Rightarrow> show_int n | SkipString s \<Rightarrow> s)"


section \<open>\<^verbatim>\<open>Buffer.from(hexSum, 'hex')\<close> and \<^verbatim>\<open>buff.toString('base64')\<close>\<close>

type_synonym byte = "8 word"

definition unhex :: "char \<Rightarrow> byte option" where
  "unhex c =
     (let n = (of_char c :: nat) in
      if 48 \<le> n \<and> n \<le> 57 then Some (of_nat (n - 48))
      else if 97 \<le> n \<and> n \<le> 102 then Some (of_nat (n - 87))
      else if 65 \<le> n \<and> n \<le> 70 then Some (of_nat (n - 55))
      else None)"

text \<open>
  Node's hex decoder (Node 8 and later, the versions the package runs on) reads the
  string two characters at a time and stops, without an error, at the first pair that
  is not two hex digits or when less than two characters are left: the bytes decoded so
  far are the buffer.
\<close>

fun hex_decode :: "string \<Rightarrow> byte list" where
  "hex_decode (a # b # rest) =
     (case unhex a of
        None \<Rightarrow> []
      | Some hi \<Rightarrow>
          (case unhex b of
             None \<Rightarrow> []
           | Some lo \<Rightarrow> (push_bit 4 hi OR lo) # hex_decode rest))"
| "hex_decode [a] = []"
| "hex_decode [] = []"

definition b64 :: "byte \<Rightarrow> char" where
  "b64 w = ''ABCDEFGHIJKLMNOPQRSTUVWXYZabcdefghijklmnopqrstuvwxyz0123456789+/'' ! unat w"

text \<open>Standard base64 with padding; every index passed to \<^const>\<open>b64\<close> is below 64.\<close>

fun base64 :: "byte list \<Rightarrow> string" where
  "base64 [] = []"
| "base64 [a] = [b64 (drop_bit 2 a), b64 (push_bit 4 (a AND 3)), CHR ''='', CHR ''='']"
| "base64 [a, b] =
     [b64 (drop_bit 2 a), b64 (push_bit 4 (a AND 3) OR drop_bit 4 b),
      b64 (push_bit 2 (b AND 15)), CHR ''='']"
| "base64 (a # b # c # rest) =
     [b64 (drop_bit 2 a), b64 (push_bit 4 (a AND 3) OR drop_bit 4 b),
      b64 (push_bit 2 (b AND 15) OR drop_bit 6 c), b64 (c AND 63)] @ base64 rest"

text \<open>
  Source lines 161-175: the declared digest (\<^verbatim>\<open>sha256\<close> before \<^verbatim>\<open>sha512\<close>) and the
  integrity digest \<^verbatim>\<open>`${hashAlgorithm}-${buff.toString('base64')}`\<close> computed from it.
\<close>

definition declared_hash :: "platform_entry \<Rightarrow> string option \<times> string option" where
  "declared_hash platform =
     (if truthy (pe_sha256 platform) then (Some ''sha256'', pe_sha256 platform)
      else if truthy (pe_sha512 platform) then (Some ''sha512'', pe_sha512 platform)
      else (None, None))"

definition integrity_of :: "string option \<Rightarrow> string option \<Rightarrow> string option" where
  "integrity_of hashAlgorithm hexSum =
     (case hexSum of
        None \<Rightarrow> None
      | Some h \<Rightarrow>
          if h \<noteq> [] then Some (tmpl hashAlgorithm @ ''-'' @ base64 (hex_decode h))
          else None)"


section \<open>The world around \<^verbatim>\<open>class Xpack\<close>\<close>

text \<open>
  Everything a method does to its surroundings is returned, in order, as a list of
  effects: a line written to the log, a lookup in the cache, a download request, the
  removal of a folder, an extraction. The cache itself is state: a lookup reads it, a
  download may change it; a method takes the cache and returns the cache it leaves.
\<close>

datatype level = Trace | Debug | Info | Warn

datatype effect =
    Log level string
  | GetInfo string string
  | Request string string string "string option"
  | Rimraf string
  | Decompress string string js_number

record cache_info =
  ci_path :: string
  ci_integrity :: string

type_synonym cache = "string \<Rightarrow> string \<Rightarrow> cache_info option"

text \<open>
  The two streams of \<^verbatim>\<open>cacheArchive\<close> and the events they emit. \<open>Transport\<close> is
  \<^verbatim>\<open>request.get(url)\<close>, \<open>CacheWrite\<close> is \<^verbatim>\<open>cacache.put.stream(cachePath, key, opts)\<close>.
\<close>

datatype emitter = Transport | CacheWrite

datatype event = Integrity string | Close | Error string | Other string

type_synonym emission = "emitter \<times> event"

text \<open>
  The collaborators: the running platform, \<^verbatim>\<open>path.join\<close>, reading and parsing
  \<^verbatim>\<open>package.json\<close> (\<open>None\<close> when either throws), what the two streams emit for a
  download and the cache it leaves, \<^verbatim>\<open>rimraf\<close> (\<open>Some\<close> message when it rejects) and
  \<^verbatim>\<open>decompress\<close> (the message when it rejects, else the number of files).
\<close>

record env =
  process_platform :: string
  os_platform :: string
  sysArch :: string
  path_join :: "string \<Rightarrow> string \<Rightarrow> string"
  readPackageFile :: "string \<Rightarrow> manifest option"
  streams :: "string \<Rightarrow> string \<Rightarrow> string \<Rightarrow> string option \<Rightarrow> cache \<Rightarrow> emission list \<times> cache"
  rimraf :: "string \<Rightarrow> string option"
  decompress :: "string \<Rightarrow> string \<Rightarrow> js_number \<Rightarrow> string + nat"


section \<open>\<^verbatim>\<open>cacheArchive\<close>\<close>

text \<open>
  What the caller that awaits \<^verbatim>\<open>cacheArchive\<close> meets: the promise is pending, resolved
  or rejected, or an exception that nothing catches has killed the process before the
  promise settled. A promise settles once: \<^verbatim>\<open>resolve\<close> and \<^verbatim>\<open>reject\<close> do nothing
  unless it is pending.
\<close>

datatype awaited = Pending | Resolved "string option" | Rejected string | Uncaught string

definition resolve :: "string option \<Rightarrow> awaited \<Rightarrow> awaited" where
  "resolve v p = (case p of Pending \<Rightarrow> Resolved v | _ \<Rightarrow> p)"

definition reject :: "string \<Rightarrow> awaited \<Rightarrow> awaited" where
  "reject err p = (case p of Pending \<Rightarrow> Rejected err | _ \<Rightarrow> p)"

text \<open>\<^verbatim>\<open>src.pipe(dst)\<close> returns its argument, the destination stream.\<close>

definition pipe :: "emitter \<Rightarrow> emitter \<Rightarrow> emitter" where
  "pipe src dst = dst"

text \<open>
  The number of \<^verbatim>\<open>error\<close> listeners that source lines 242-260 register on a stream:
  one on the stream \<^verbatim>\<open>cacache.put.stream(...)\<close> (line 248), one on the stream that
  \<^verbatim>\<open>.pipe(...)\<close> returns (line 257).
\<close>

definition error_listeners :: "emitter \<Rightarrow> nat" where
  "error_listeners target =
     (if target = CacheWrite then 1 else 0)
     + (if target = pipe Transport CacheWrite then 1 else 0)"

text \<open>
  The listeners of source lines 242-260, run on one emitted event while the promise is
  pending. The first two are registered on the stream \<^verbatim>\<open>cacache.put.stream(...)\<close>, the
  last two on the stream that \<^verbatim>\<open>.pipe(...)\<close> returns. \<^verbatim>\<open>pipe\<close> itself listens for
  \<^verbatim>\<open>error\<close> on both streams: its listener throws the error again when the stream that
  emitted it has no other \<^verbatim>\<open>error\<close> listener, and nothing catches that exception, so
  the process dies. What the streams emit after the promise has settled, or after the
  process has died, is outside the model: the caller already runs on, or nothing runs.
\<close>

definition on_event :: "emission \<Rightarrow> awaited \<times> effect list \<Rightarrow> awaited \<times> effect list" where
  "on_event em st =
     (let target = fst em;
          put = CacheWrite;
          piped = pipe Transport put;
          p = fst st;
          logs = snd st
      in if p \<noteq> Pending then st
         else
          (case snd em of
             Integrity v \<Rightarrow>
               if target = put
               then (resolve (Some v) p, logs @ [Log Debug (''computed integrity '' @ v)])
               else (p, logs)
           | Error err \<Rightarrow>
               (let st1 = (if target = put
                           then (reject err p, logs @ [Log Trace ''cacache.put.stream error''])
                           else (p, logs));
                    st2 = (if target = piped
                           then (reject err (fst st1),
                                 snd st1 @ [Log Trace ''cacheArchive pipe error''])
                           else st1)
                in if error_listeners target = 0 then (Uncaught err, snd st2) else st2)
           | Close \<Rightarrow>
               if target = piped
               then (resolve None p, logs @ [Log Trace ''cacheArchive pipe close''])
               else (p, logs)
           | Other n \<Rightarrow> (p, logs)))"

definition settle :: "emission list \<Rightarrow> awaited \<times> effect list" where
  "settle emitted = foldl (\<lambda>st em. on_event em st) (Pending, []) emitted"

text \<open>
  \<^verbatim>\<open>cacheArchive\<close>: the request is made, the listeners run on what the streams emit (their
  log lines are recorded after the request), the cache is as the download leaves it.
\<close>

definition cacheArchive ::
  "env \<Rightarrow> string \<Rightarrow> string \<Rightarrow> string \<Rightarrow> string option \<Rightarrow> cache
     \<Rightarrow> awaited \<times> cache \<times> effect list" where
  "cacheArchive e url cachePath key opts c =
     (let r = streams e url cachePath key opts c;
          st = settle (fst r)
      in (fst st, snd r, Request url cachePath key opts # snd st))"


section \<open>\<^verbatim>\<open>isFolderPackage\<close> and \<^verbatim>\<open>downloadBinaries\<close>\<close>

text \<open>
  How an \<^verbatim>\<open>async\<close> method ends: it returns, it throws, it waits for a promise that
  never settles, or the process dies of an uncaught exception while it waits.
\<close>

datatype outcome = Returned | Thrown error | NeverSettles | ProcessDies string

text \<open>Source lines 279-293.\<close>

definition isFolderPackage :: "env \<Rightarrow> string \<Rightarrow> manifest option" where
  "isFolderPackage e folder =
     (let p = path_join e folder ''package.json'' in
      case readPackageFile e p of
        None \<Rightarrow> None
      | Some json \<Rightarrow> if truthy (m_name json) \<and> truthy (m_version json) then Some json else None)"

definition platformKey :: "env \<Rightarrow> string" where
  "platformKey e = process_platform e @ ''-'' @ sysArch e"

text \<open>
  Source lines 152-159. \<^verbatim>\<open>fileUrl.endsWith\<close> on a missing value would throw a
  TypeError.
\<close>

definition fileUrl_of :: "binaries \<Rightarrow> platform_entry \<Rightarrow> error + string" where
  "fileUrl_of bin platform =
     (case or_else (pe_baseUrl platform) (bin_baseUrl bin) of
        None \<Rightarrow> Inl TypeError
      | Some fileUrl \<Rightarrow>
          Inr ((if \<not> endsWith fileUrl CHR ''/'' then fileUrl @ ''/'' else fileUrl)
               @ tmpl (pe_fileName platform)))"

text \<open>
  Source lines 178-210: look the file up in the cache and download it when the cache
  does not know it. The result is the cache entry, or how the method ends.
\<close>

definition fetch ::
  "env \<Rightarrow> string \<Rightarrow> string \<Rightarrow> string \<Rightarrow> string option \<Rightarrow> cache
     \<Rightarrow> (outcome + cache_info) \<times> cache \<times> effect list" where
  "fetch e cachePath cacheKey fileUrl integrityDigest c =
     (let fx1 = [Log Trace (''getting cacache info('' @ cachePath @ '', '' @ cacheKey @ '')...''),
                 GetInfo cachePath cacheKey]
      in case c cachePath cacheKey of
           Some cacheInfo \<Rightarrow> (Inr cacheInfo, c, fx1)
         | None \<Rightarrow>
             (let fx2 = fx1 @ [Log Info (''Downloading '' @ fileUrl @ ''...'')];
                  opts = (if truthy integrityDigest then integrityDigest else None);
                  r = cacheArchive e fileUrl cachePath cacheKey opts c;
                  c1 = fst (snd r);
                  fx3 = fx2 @ snd (snd r)
              in case fst r of
                   Rejected err \<Rightarrow>
                     (Inl (Thrown (CliError ''Download failed.'' INPUT)), c1,
                      fx3 @ [Log Info err]
                      @ (if os_platform e = ''win32''
                         then [Log Info (''If you have an aggressive antivirus, try to''
                                         @ '' reconfigure it, or temporarily disable it.'')]
                         else []))
                 | Pending \<Rightarrow> (Inl NeverSettles, c1, fx3)
                 | Uncaught err \<Rightarrow> (Inl (ProcessDies err), c1, fx3)
                 | Resolved v \<Rightarrow>
                     (case c1 cachePath cacheKey of
                        None \<Rightarrow>
                          (Inl (Thrown (CliError ''Download failed.'' INPUT)), c1,
                           fx3 @ [GetInfo cachePath cacheKey])
                      | Some cacheInfo \<Rightarrow>
                          (Inr cacheInfo, c1, fx3 @ [GetInfo cachePath cacheKey]))))"

text \<open>
  Source lines 212-219: the number of folder levels to strip. \<^verbatim>\<open>parseInt\<close> never
  throws, so the \<^verbatim>\<open>catch\<close> block is never entered.
\<close>

definition skip_levels :: "binaries \<Rightarrow> js_number" where
  "skip_levels bin =
     (case bin_skip bin of
        None \<Rightarrow> Num 0
      | Some v \<Rightarrow> if skip_truthy v then parseInt (skip_toString v) else Num 0)"

text \<open>Source lines 220-234: clear the destination folder and extract the cached archive.\<close>

definition clear_and_extract ::
  "env \<Rightarrow> binaries \<Rightarrow> platform_entry \<Rightarrow> string \<Rightarrow> cache_info \<Rightarrow> outcome \<times> effect list" where
  "clear_and_extract e bin platform contentFolderPath cacheInfo =
     (let skip = skip_levels bin;
          fx1 = [Log Trace (''skip '' @ number_toString skip @ '' levels''),
                 Log Trace (''rimraf '' @ contentFolderPath),
                 Rimraf contentFolderPath]
      in case rimraf e contentFolderPath of
           Some err \<Rightarrow> (Thrown (ExternalError err), fx1)
         | None \<Rightarrow>
             (let ipath = ci_path cacheInfo;
                  fx2 = fx1 @ [Log Trace (''ipath '' @ ipath),
                               Log Info (''Extracting '' @ [CHR 0x27] @ tmpl (pe_fileName platform)
                                         @ [CHR 0x27] @ ''...''),
                               Decompress ipath contentFolderPath skip]
              in case decompress e ipath contentFolderPath skip of
                   Inl err \<Rightarrow> (Thrown (ExternalError err), fx2)
                 | Inr n \<Rightarrow> (Returned, fx2 @ [Log Info (show_nat n @ '' files extracted.'')])))"

text \<open>
  Source lines 109-131: the \<^verbatim>\<open>xpack.binaries\<close> section and the entry of the running
  platform, when the folder is a package that has both.
\<close>

definition resolved_entry :: "env \<Rightarrow> string \<Rightarrow> (binaries \<times> platform_entry) option" where
  "resolved_entry e packagePath =
     (case isFolderPackage e packagePath of
        None \<Rightarrow> None
      | Some json \<Rightarrow>
     (case m_xpack json of
        None \<Rightarrow> None
      | Some xp \<Rightarrow>
     (case xp_binaries xp of
        None \<Rightarrow> None
      | Some bin \<Rightarrow>
     (case bin_platforms bin of
        None \<Rightarrow> None
      | Some platforms \<Rightarrow>
     (case platforms (platformKey e) of
        None \<Rightarrow> None
      | Some platform \<Rightarrow> Some (bin, platform))))))"

text \<open>Source lines 133-234: what \<^verbatim>\<open>downloadBinaries\<close> does with the resolved entry.\<close>

definition acquire ::
  "env \<Rightarrow> string \<Rightarrow> string \<Rightarrow> binaries \<Rightarrow> platform_entry \<Rightarrow> cache
     \<Rightarrow> outcome \<times> cache \<times> effect list" where
  "acquire e packagePath cachePath bin platform c =
     (if \<not> truthy (bin_baseUrl bin)
      then (Thrown (CliError ''Missing xpack.binaries.baseUrl'' INPUT), c, [])
      else
        (let contentFolder = tmpl (or_else (bin_destination bin) (Some ''.content''));
             contentFolderPath = path_join e packagePath contentFolder
         in if pe_skip platform = Some True
            then (Returned, c,
                  [Log Warn ''No binaries are available for this platform, command ignored.''])
            else if \<not> truthy (pe_fileName platform)
            then (Thrown (CliError (''Missing xpack.binaries.platform['' @ platformKey e
                                     @ ''].fileName'') INPUT), c, [])
            else
              (case fileUrl_of bin platform of
                 Inl err \<Rightarrow> (Thrown err, c, [])
               | Inr fileUrl \<Rightarrow>
                   (let hashAlgorithm = fst (declared_hash platform);
                        hexSum = snd (declared_hash platform);
                        integrityDigest = integrity_of hashAlgorithm hexSum;
                        fx1 = [Log Trace (''expected integrity digest '' @ tmpl integrityDigest
                                          @ '' for '' @ tmpl hexSum)];
                        cacheKey = ''xpm:binaries:'' @ tmpl (pe_fileName platform);
                        r = fetch e cachePath cacheKey fileUrl integrityDigest c;
                        c1 = fst (snd r);
                        fx2 = fx1 @ snd (snd r)
                    in case fst r of
                         Inl ended \<Rightarrow> (ended, c1, fx2)
                       | Inr cacheInfo \<Rightarrow>
                           (let x = clear_and_extract e bin platform contentFolderPath cacheInfo
                            in (fst x, c1, fx2 @ snd x))))))"

text \<open>Source lines 106-235, in the order of the source.\<close>

definition downloadBinaries ::
  "env \<Rightarrow> string \<Rightarrow> string \<Rightarrow> cache \<Rightarrow> outcome \<times> cache \<times> effect list" where
  "downloadBinaries e packagePath cachePath c =
     (case (case isFolderPackage e packagePath of
              None \<Rightarrow> None
            | Some json \<Rightarrow> m_xpack json) of
        None \<Rightarrow>
          (Returned, c, [Log Debug ''doesn't look like an xPack, package.json has no xpack''])
      | Some xp \<Rightarrow>
     (case xp_binaries xp of
        None \<Rightarrow>
          (Returned, c, [Log Debug (''doesn't look like a binary xPack, package.json has no ''
                                    @ ''xpack.binaries'')])
      | Some bin \<Rightarrow>
     (case bin_platforms bin of
        None \<Rightarrow>
          (Returned, c, [Log Debug (''doesn't look like a binary xPack, package.json has no ''
                                    @ ''xpack.binaries.platforms'')])
      | Some platforms \<Rightarrow>
     (case platforms (platformKey e) of
        None \<Rightarrow>
          (Returned, c, [Log Debug (''platform '' @ platformKey e @ '' not defined'')])
      | Some platform \<Rightarrow> acquire e packagePath cachePath bin platform c))))"


section \<open>Concrete surroundings for the examples\<close>

text \<open>
  A Linux host on x64 whose package folder \<^verbatim>\<open>pkg\<close> holds the given manifest; a download
  makes the streams emit the given events and leaves the given cache; removing and
  extracting succeed, with three files extracted.
\<close>

definition example_env :: "manifest \<Rightarrow> emission list \<Rightarrow> cache \<Rightarrow> env" where
  "example_env json emitted after =
     \<lparr> process_platform = ''linux'',
       os_platform = ''linux'',
       sysArch = ''x64'',
       path_join = (\<lambda>a b. a @ ''/'' @ b),
       readPackageFile = (\<lambda>p. if p = ''pkg/package.json'' then Some json else None),
       streams = (\<lambda>url cachePath key opts c. (emitted, after)),
       rimraf = (\<lambda>p. None),
       decompress = (\<lambda>ipath dest strip. Inr 3) \<rparr>"

definition example_package :: "binaries \<Rightarrow> manifest" where
  "example_package bin =
     \<lparr> m_name = Some ''pkg'', m_version = Some ''1.0.0'', m_from = None,
       m_xpack = Some \<lparr> xp_binaries = Some bin \<rparr> \<rparr>"

definition example_binaries :: "string option \<Rightarrow> skip_value option \<Rightarrow> platform_entry \<Rightarrow> binaries" where
  "example_binaries base sk entry =
     \<lparr> bin_baseUrl = base, bin_destination = None, bin_skip = sk,
       bin_platforms = Some (\<lambda>k. if k = ''linux-x64'' then Some entry else None) \<rparr>"

definition example_entry :: "string option \<Rightarrow> string option \<Rightarrow> bool option \<Rightarrow> platform_entry" where
  "example_entry base sha sk =
     \<lparr> pe_fileName = Some ''x.tar.gz'', pe_baseUrl = base, pe_sha256 = sha,
       pe_sha512 = None, pe_skip = sk \<rparr>"

definition empty_cache :: cache where
  "empty_cache = (\<lambda>cachePath key. None)"

definition full_cache :: cache where
  "full_cache = (\<lambda>cachePath key. Some \<lparr> ci_path = ''blob'', ci_integrity = ''sha256-'' \<rparr>)"

definition descriptor :: "string \<Rightarrow> manifest" where
  "descriptor d = \<lparr> m_name = None, m_version = Some ''9.9.9'', m_from = Some d, m_xpack = None \<rparr>"


section \<open>Properties of \<^verbatim>\<open>ManifestId\<close>\<close>

lemma js_split_not_Nil: "js_split c s \<noteq> []"
  by (induction s) (auto split: list.splits)

lemma js_split_absent: "c \<notin> set s \<Longrightarrow> js_split c s = [s]"
  by (induction s) auto

lemma js_split_append: "c \<notin> set a \<Longrightarrow> js_split c (a @ c # b) = a # js_split c b"
  by (induction a) auto

lemma at_js_split_0: "at (js_split c s) 0 = Some (takeWhile (\<lambda>x. x \<noteq> c) s)"
proof (induction s)
  case Nil
  show ?case by (simp add: at_def)
next
  case (Cons x s)
  then show ?case
    by (cases "js_split c s") (auto simp: at_def js_split_not_Nil)
qed

lemma at_js_split_1:
  "at (js_split c s) (Suc 0) =
     (if c \<in> set s
      then Some (takeWhile (\<lambda>x. x \<noteq> c) (drop (Suc 0) (dropWhile (\<lambda>x. x \<noteq> c) s)))
      else None)"
proof (induction s)
  case Nil
  show ?case by (simp add: at_def)
next
  case (Cons x s)
  show ?case
  proof (cases "x = c")
    case True
    have "at ([] # js_split c s) (Suc 0) = at (js_split c s) 0"
      using js_split_not_Nil[of c s] by (cases "js_split c s") (auto simp: at_def)
    then show ?thesis using True by (simp add: at_js_split_0)
  next
    case False
    obtain seg segs where sp: "js_split c s = seg # segs"
      using js_split_not_Nil[of c s] by (cases "js_split c s") auto
    have "at ((x # seg) # segs) (Suc 0) = at (seg # segs) (Suc 0)" by (simp add: at_def)
    then show ?thesis using False Cons sp by simp
  qed
qed

lemma dropWhile_absent: "c \<notin> set s \<Longrightarrow> dropWhile (\<lambda>x. x \<noteq> c) s = []"
  by (induction s) auto

text \<open>
  Claim C7, as the constructor has it. The constructor cuts the descriptor at every
  \<^verbatim>\<open>/\<close> (every \<^verbatim>\<open>@\<close>) and uses the first two pieces only. For a descriptor that
  starts with \<^verbatim>\<open>@\<close> and contains a \<^verbatim>\<open>/\<close>: the scope is the text before the first
  \<^verbatim>\<open>/\<close>; the text between the first and the second \<^verbatim>\<open>/\<close> (or the end) is the segment
  parsed further; the name is the segment up to its first \<^verbatim>\<open>@\<close>; the version is the
  text between the first and the second \<^verbatim>\<open>@\<close> of the segment (or its end) when that
  is non-empty, else the fallback version. For a descriptor that does not start with
  \<^verbatim>\<open>@\<close> the same holds with the whole descriptor as the segment and no scope.
\<close>

theorem ManifestId_segments:
  assumes "m_from m = Some d"
  shows "(startsWith d CHR ''@'' \<and> CHR ''/'' \<in> set d \<longrightarrow>
            ManifestId m =
              (let seg = takeWhile (\<lambda>x. x \<noteq> CHR ''/'') (drop 1 (dropWhile (\<lambda>x. x \<noteq> CHR ''/'') d));
                   v = takeWhile (\<lambda>x. x \<noteq> CHR ''@'') (drop 1 (dropWhile (\<lambda>x. x \<noteq> CHR ''@'') seg))
               in Inr \<lparr> scope = Some (takeWhile (\<lambda>x. x \<noteq> CHR ''/'') d),
                        name = Some (takeWhile (\<lambda>x. x \<noteq> CHR ''@'') seg),
                        version = (if v \<noteq> [] then Some v else m_version m) \<rparr>))
       \<and> (\<not> startsWith d CHR ''@'' \<longrightarrow>
            ManifestId m =
              (let v = takeWhile (\<lambda>x. x \<noteq> CHR ''@'') (drop 1 (dropWhile (\<lambda>x. x \<noteq> CHR ''@'') d))
               in Inr \<lparr> scope = None,
                        name = Some (takeWhile (\<lambda>x. x \<noteq> CHR ''@'') d),
                        version = (if v \<noteq> [] then Some v else m_version m) \<rparr>))"
proof (intro conjI impI)
  assume sc: "startsWith d CHR ''@'' \<and> CHR ''/'' \<in> set d"
  show "ManifestId m =
     (let seg = takeWhile (\<lambda>x. x \<noteq> CHR ''/'') (drop 1 (dropWhile (\<lambda>x. x \<noteq> CHR ''/'') d));
          v = takeWhile (\<lambda>x. x \<noteq> CHR ''@'') (drop 1 (dropWhile (\<lambda>x. x \<noteq> CHR ''@'') seg))
      in Inr \<lparr> scope = Some (takeWhile (\<lambda>x. x \<noteq> CHR ''/'') d),
               name = Some (takeWhile (\<lambda>x. x \<noteq> CHR ''@'') seg),
               version = (if v \<noteq> [] then Some v else m_version m) \<rparr>)"
    using assms sc
    by (simp add: ManifestId_def Let_def at_js_split_0 at_js_split_1 or_else_def truthy_def
          dropWhile_absent)
next
  assume un: "\<not> startsWith d CHR ''@''"
  show "ManifestId m =
     (let v = takeWhile (\<lambda>x. x \<noteq> CHR ''@'') (drop 1 (dropWhile (\<lambda>x. x \<noteq> CHR ''@'') d))
      in Inr \<lparr> scope = None,
               name = Some (takeWhile (\<lambda>x. x \<noteq> CHR ''@'') d),
               version = (if v \<noteq> [] then Some v else m_version m) \<rparr>)"
    using assms un
    by (simp add: ManifestId_def Let_def at_js_split_0 at_js_split_1 or_else_def truthy_def
          dropWhile_absent)
qed

theorem ManifestId_segments_witness:
  "ManifestId (descriptor ''@s/n/x@1'')
     = Inr \<lparr> scope = Some ''@s'', name = Some ''n'', version = Some ''9.9.9'' \<rparr>
   \<and> ManifestId (descriptor ''a@1@2'')
     = Inr \<lparr> scope = None, name = Some ''a'', version = Some ''1'' \<rparr>"
  using ManifestId_segments[of "descriptor ''@s/n/x@1''" "''@s/n/x@1''"]
        ManifestId_segments[of "descriptor ''a@1@2''" "''a@1@2''"]
  by (simp add: descriptor_def startsWith_def)

text \<open>
  Claim C7 as the specification words it (cut at the first \<^verbatim>\<open>/\<close>, then at the first
  \<^verbatim>\<open>@\<close>, the version being everything after that \<^verbatim>\<open>@\<close>) fails: for \<^verbatim>\<open>a@1@2\<close> the
  constructor's version is \<^verbatim>\<open>1\<close>, the specification's is \<^verbatim>\<open>1@2\<close>.
\<close>

theorem ManifestId_first_split_counterexample:
  "ManifestId (descriptor ''a@1@2'')
     = Inr \<lparr> scope = None, name = Some ''a'', version = Some ''1'' \<rparr>
   \<and> spec_ManifestId ''a@1@2'' (Some ''9.9.9'')
     = \<lparr> scope = None, name = Some ''a'', version = Some ''1@2'' \<rparr>"
  by (simp add: ManifestId_def descriptor_def startsWith_def at_def or_else_def truthy_def
        spec_ManifestId_def split_first_def)

text \<open>
  Claim C8: for a descriptor \<^verbatim>\<open>@scope/name@version\<close> or \<^verbatim>\<open>name@version\<close> whose scope,
  name and version are non-empty and contain neither \<^verbatim>\<open>@\<close> nor \<^verbatim>\<open>/\<close>, the constructor
  returns an object whose \<^verbatim>\<open>getFullName()\<close> is the descriptor.
\<close>

theorem getFullName_roundtrip:
  assumes "m_from m = Some d"
    and "d = ''@'' @ s @ ''/'' @ n @ ''@'' @ v \<or> d = n @ ''@'' @ v"
    and "s \<noteq> []" and "n \<noteq> []" and "v \<noteq> []"
    and "CHR ''@'' \<notin> set s" and "CHR ''/'' \<notin> set s"
    and "CHR ''@'' \<notin> set n" and "CHR ''/'' \<notin> set n"
    and "CHR ''@'' \<notin> set v" and "CHR ''/'' \<notin> set v"
  shows "\<exists>this. ManifestId m = Inr this \<and> getFullName this = d"
proof -
  have un: "\<not> startsWith (n @ ''@'' @ v) CHR ''@''"
    using assms(4,8) by (cases n) (auto simp: startsWith_def)
  have sp_at: "js_split CHR ''@'' (n @ ''@'' @ v) = [n, v]"
    using js_split_append[of "CHR ''@''" n v] assms(8,10) by (simp add: js_split_absent)
  have sp_slash: "js_split CHR ''/'' (''@'' @ s @ ''/'' @ n @ ''@'' @ v) = [''@'' @ s, n @ ''@'' @ v]"
    using js_split_append[of "CHR ''/''" "''@'' @ s" "n @ ''@'' @ v"] assms(7,9,11)
    by (simp add: js_split_absent)
  from assms(2) show ?thesis
  proof
    assume d: "d = ''@'' @ s @ ''/'' @ n @ ''@'' @ v"
    have "startsWith d CHR ''@''" by (simp add: d startsWith_def)
    then show ?thesis
      using assms(1,5) sp_at sp_slash unfolding d
      by (simp add: ManifestId_def Let_def at_def or_else_def truthy_def getFullName_def tmpl_def)
  next
    assume d: "d = n @ ''@'' @ v"
    show ?thesis
      using assms(1,5) un sp_at unfolding d
      by (simp add: ManifestId_def Let_def at_def or_else_def truthy_def getFullName_def tmpl_def)
  qed
qed

theorem getFullName_roundtrip_witness:
  "(\<exists>this. ManifestId (descriptor ''@scope/name@1.2.3'') = Inr this
           \<and> getFullName this = ''@scope/name@1.2.3'')
   \<and> (\<exists>this. ManifestId (descriptor ''name@1.2.3'') = Inr this
           \<and> getFullName this = ''name@1.2.3'')"
  using getFullName_roundtrip[of "descriptor ''@scope/name@1.2.3''" "''@scope/name@1.2.3''"
          "''scope''" "''name''" "''1.2.3''"]
        getFullName_roundtrip[of "descriptor ''name@1.2.3''" "''name@1.2.3''"
          "''scope''" "''name''" "''1.2.3''"]
  by (simp add: descriptor_def)

text \<open>
  Claim C10: for a descriptor that starts with \<^verbatim>\<open>@\<close> and contains no \<^verbatim>\<open>/\<close>, the
  constructor returns no object: it throws a TypeError.
\<close>

theorem scoped_without_slash_throws:
  assumes "m_from m = Some d" and "startsWith d CHR ''@''" and "CHR ''/'' \<notin> set d"
  shows "ManifestId m = Inl TypeError"
  using assms by (simp add: ManifestId_def Let_def at_js_split_1)

theorem scoped_without_slash_throws_witness:
  "ManifestId (descriptor ''@foo'') = Inl TypeError"
  using scoped_without_slash_throws[of "descriptor ''@foo''" "''@foo''"]
  by (simp add: descriptor_def startsWith_def)


section \<open>Properties of \<^verbatim>\<open>cacheArchive\<close>\<close>

lemma on_event_logs:
  "(\<And>x. x \<in> set l \<Longrightarrow> \<exists>lv m. x = Log lv m) \<Longrightarrow> x \<in> set (snd (on_event em (p, l)))
     \<Longrightarrow> \<exists>lv m. x = Log lv m"
  by (cases "snd em") (auto simp: on_event_def Let_def split: if_splits)

lemma foldl_on_event_logs:
  "(\<And>x. x \<in> set l \<Longrightarrow> \<exists>lv m. x = Log lv m)
     \<Longrightarrow> x \<in> set (snd (foldl (\<lambda>st em. on_event em st) (p, l) es))
     \<Longrightarrow> \<exists>lv m. x = Log lv m"
proof (induction es arbitrary: p l)
  case Nil
  then show ?case by simp
next
  case (Cons em es)
  obtain q l' where st: "on_event em (p, l) = (q, l')" by (cases "on_event em (p, l)")
  have l': "\<And>y. y \<in> set l' \<Longrightarrow> \<exists>lv m. y = Log lv m"
    using on_event_logs[of l _ em p] Cons.prems(1) st by simp
  show ?case using Cons.IH[of l' q, OF l'] Cons.prems(2) st by simp
qed

lemma settle_logs: "x \<in> set (snd (settle es)) \<Longrightarrow> \<exists>lv m. x = Log lv m"
  unfolding settle_def using foldl_on_event_logs[of "[]" x Pending es] by simp

text \<open>
  Claim C2, evaluated. The claim says that an error signalled on the transport stream
  rejects the operation. The two \<^verbatim>\<open>error\<close> listeners of \<^verbatim>\<open>cacheArchive\<close> are both on the
  cache-write stream, because \<^verbatim>\<open>pipe\<close> returns its destination; the transport stream
  has none. When the transport stream emits \<^verbatim>\<open>error\<close>, the promise is not rejected: the
  error is thrown again with nothing to catch it, and \<^verbatim>\<open>downloadBinaries\<close> does not end
  with \<^verbatim>\<open>Download failed.\<close> but with the death of the process. The same error on the
  cache-write stream does reject, and \<^verbatim>\<open>downloadBinaries\<close> then throws
  \<^verbatim>\<open>Download failed.\<close>.
\<close>

theorem transport_error_evaluation:
  "fst (cacheArchive (example_env (descriptor ''x'') [(Transport, Error ''ECONNRESET'')] empty_cache)
          ''https://example.com/x.tar.gz'' ''cache'' ''xpm:binaries:x.tar.gz'' None empty_cache)
     = Uncaught ''ECONNRESET''
   \<and> fst (downloadBinaries
          (example_env (example_package (example_binaries (Some ''https://example.com/'') None
                          (example_entry None None None)))
             [(Transport, Error ''ECONNRESET'')] empty_cache)
          ''pkg'' ''cache'' empty_cache)
     = ProcessDies ''ECONNRESET''
   \<and> fst (cacheArchive (example_env (descriptor ''x'') [(CacheWrite, Error ''ECONNRESET'')] empty_cache)
          ''https://example.com/x.tar.gz'' ''cache'' ''xpm:binaries:x.tar.gz'' None empty_cache)
     = Rejected ''ECONNRESET''
   \<and> fst (downloadBinaries
          (example_env (example_package (example_binaries (Some ''https://example.com/'') None
                          (example_entry None None None)))
             [(CacheWrite, Error ''ECONNRESET'')] empty_cache)
          ''pkg'' ''cache'' empty_cache)
     = Thrown (CliError ''Download failed.'' INPUT)"
  by (simp add: downloadBinaries_def resolved_entry_def isFolderPackage_def platformKey_def
        acquire_def fileUrl_of_def fetch_def cacheArchive_def settle_def on_event_def pipe_def
        error_listeners_def resolve_def reject_def declared_hash_def integrity_of_def truthy_def
        or_else_def tmpl_def endsWith_def example_env_def example_package_def
        example_binaries_def example_entry_def empty_cache_def descriptor_def Let_def)


section \<open>Properties of the integrity digest\<close>

lemma hex_decode_bad_tail:
  "length t < 2 \<or> unhex (t ! 0) = None \<or> unhex (t ! 1) = None \<Longrightarrow> hex_decode t = []"
  by (cases t rule: hex_decode.cases) (auto split: option.splits)

lemma hex_decode_prefix:
  "even (length u) \<Longrightarrow> \<forall>x\<in>set u. unhex x \<noteq> None
     \<Longrightarrow> hex_decode (u @ t) = hex_decode u @ hex_decode t
         \<and> length (hex_decode u) = length u div 2"
proof (induction u rule: hex_decode.induct)
  case (1 a b rest)
  obtain hi lo where h: "unhex a = Some hi" "unhex b = Some lo"
    using "1.prems"(2) by auto
  have "even (length rest)" and "\<forall>x\<in>set rest. unhex x \<noteq> None"
    using "1.prems" by auto
  from "1.IH"[OF h this] show ?case using h by simp
next
  case (2 a)
  then show ?case by simp
next
  case 3
  show ?case by simp
qed

text \<open>
  Claim C6, as the code has it. The integrity step never fails. For a checksum string
  made of an even number of hex digits \<open>u\<close> followed by a tail \<open>t\<close> that is shorter than
  two characters or does not start with two hex digits, every pair of \<open>u\<close> is decoded,
  the tail is dropped without an error, and the digest is
  \<^verbatim>\<open><algorithm>-<base64 of the bytes of u>\<close>. With an empty tail this is the well-formed
  case.
\<close>

theorem integrity_drops_malformed_tail:
  assumes "even (length u)" and "\<forall>x\<in>set u. unhex x \<noteq> None"
    and "length t < 2 \<or> unhex (t ! 0) = None \<or> unhex (t ! 1) = None"
    and "u @ t \<noteq> []"
  shows "integrity_of (Some algorithm) (Some (u @ t))
           = Some (algorithm @ ''-'' @ base64 (hex_decode u))
         \<and> length (hex_decode u) = length u div 2"
  using hex_decode_prefix[OF assms(1,2), of t] hex_decode_bad_tail[OF assms(3)] assms(4)
  by (simp add: integrity_of_def tmpl_def)

theorem integrity_drops_malformed_tail_witness:
  "integrity_of (Some ''sha256'') (Some ''1ag123'') = Some ''sha256-Gg==''
   \<and> integrity_of (Some ''sha256'') (Some ''4d616e'') = Some ''sha256-TWFu''"
proof -
  have u1: "even (length ''1a'')" "\<forall>x\<in>set ''1a''. unhex x \<noteq> None"
    by (simp_all add: unhex_def)
  have t1: "length ''g123'' < 2 \<or> unhex (''g123'' ! 0) = None \<or> unhex (''g123'' ! 1) = None"
    by (simp add: unhex_def)
  have n1: "''1a'' @ ''g123'' \<noteq> []" by simp
  have u2: "even (length ''4d616e'')" "\<forall>x\<in>set ''4d616e''. unhex x \<noteq> None"
    by (simp_all add: unhex_def)
  have t2: "length ([] :: string) < 2 \<or> unhex ([] ! 0) = None \<or> unhex ([] ! 1) = None"
    by simp
  have n2: "''4d616e'' @ [] \<noteq> []" by simp
  show ?thesis
    using integrity_drops_malformed_tail[OF u1 t1 n1, of "''sha256''"]
          integrity_drops_malformed_tail[OF u2 t2 n2, of "''sha256''"]
    by (simp add: unhex_def b64_def)
qed

section \<open>Properties of \<^verbatim>\<open>downloadBinaries\<close>\<close>

lemmas run_defs =
  downloadBinaries_def resolved_entry_def isFolderPackage_def platformKey_def acquire_def
  fileUrl_of_def fetch_def cacheArchive_def settle_def on_event_def pipe_def error_listeners_def
  resolve_def reject_def clear_and_extract_def skip_levels_def skip_truthy_def skip_toString_def
  declared_hash_def integrity_of_def truthy_def or_else_def tmpl_def endsWith_def
  example_env_def example_package_def example_binaries_def example_entry_def
  empty_cache_def full_cache_def Let_def

subsection \<open>The stages\<close>

lemma downloadBinaries_resolved:
  "resolved_entry e packagePath = Some (bin, platform)
     \<Longrightarrow> downloadBinaries e packagePath cachePath c = acquire e packagePath cachePath bin platform c"
  by (auto simp: resolved_entry_def downloadBinaries_def split: option.splits)

lemma downloadBinaries_unresolved:
  "resolved_entry e packagePath = None
     \<Longrightarrow> fst (downloadBinaries e packagePath cachePath c) = Returned
         \<and> snd (snd (downloadBinaries e packagePath cachePath c)) \<in> range (\<lambda>msg. [Log Debug msg])"
  by (auto simp: resolved_entry_def downloadBinaries_def split: option.splits)

lemma cacheArchive_effects:
  "x \<in> set (snd (snd (cacheArchive e url cachePath key opts c)))
     \<Longrightarrow> x = Request url cachePath key opts \<or> (\<exists>lv m. x = Log lv m)"
  by (auto simp: cacheArchive_def Let_def dest: settle_logs)

lemma fetch_effects:
  "x \<in> set (snd (snd (fetch e cachePath cacheKey fileUrl integ c)))
     \<Longrightarrow> (x = Request fileUrl cachePath cacheKey (if truthy integ then integ else None)
            \<and> c cachePath cacheKey = None)
         \<or> x = GetInfo cachePath cacheKey \<or> (\<exists>lv m. x = Log lv m)"
  by (auto simp: fetch_def Let_def split: option.splits awaited.splits if_splits
        dest: cacheArchive_effects)

lemma fetch_ended:
  "fst (fetch e cachePath cacheKey fileUrl integ c) = Inl out
     \<Longrightarrow> out = Thrown (CliError ''Download failed.'' INPUT) \<or> out = NeverSettles
         \<or> (\<exists>err. out = ProcessDies err)"
  by (auto simp: fetch_def Let_def split: option.splits awaited.splits)

lemma fetch_rejected:
  "c cachePath cacheKey = None
     \<Longrightarrow> fst (cacheArchive e fileUrl cachePath cacheKey (if truthy integ then integ else None) c)
           = Rejected err
     \<Longrightarrow> fst (fetch e cachePath cacheKey fileUrl integ c)
           = Inl (Thrown (CliError ''Download failed.'' INPUT))"
  by (simp add: fetch_def Let_def)

lemma clear_and_extract_thrown:
  "fst (clear_and_extract e bin platform dest ci) = Thrown x \<Longrightarrow> \<exists>m. x = ExternalError m"
  by (auto simp: clear_and_extract_def Let_def split: option.splits sum.splits)

lemma clear_and_extract_effects:
  "x \<in> set (snd (clear_and_extract e bin platform dest ci))
     \<Longrightarrow> x = Rimraf dest \<or> x = Decompress (ci_path ci) dest (skip_levels bin) \<or> (\<exists>lv m. x = Log lv m)"
  by (auto simp: clear_and_extract_def Let_def split: option.splits sum.splits)

lemma integrity_of_opts:
  "(if truthy (integrity_of a h) then integrity_of a h else None) = integrity_of a h"
  by (auto simp: integrity_of_def truthy_def split: option.splits)

lemma or_else_truthy: "truthy b \<Longrightarrow> \<exists>s. or_else a b = Some s"
  by (cases a; cases b) (auto simp: or_else_def truthy_def)

lemma fileUrl_of_Inr: "truthy (bin_baseUrl bin) \<Longrightarrow> \<exists>u. fileUrl_of bin platform = Inr u"
  using or_else_truthy[of "bin_baseUrl bin" "pe_baseUrl platform"]
  by (auto simp: fileUrl_of_def)

lemma acquire_past_guards:
  fixes e :: env and packagePath cachePath :: string and c :: cache
  assumes "truthy (bin_baseUrl bin)" and "pe_skip platform \<noteq> Some True"
    and "truthy (pe_fileName platform)" and "fileUrl_of bin platform = Inr fileUrl"
  defines "integ \<equiv> integrity_of (fst (declared_hash platform)) (snd (declared_hash platform))"
  defines "r \<equiv> fetch e cachePath (''xpm:binaries:'' @ tmpl (pe_fileName platform)) fileUrl integ c"
  defines "x \<equiv> clear_and_extract e bin platform
                  (path_join e packagePath (tmpl (or_else (bin_destination bin) (Some ''.content''))))"
  shows "fst (acquire e packagePath cachePath bin platform c)
           = (case fst r of Inl ended \<Rightarrow> ended | Inr cacheInfo \<Rightarrow> fst (x cacheInfo))"
    and "fst (snd (acquire e packagePath cachePath bin platform c)) = fst (snd r)"
    and "snd (snd (acquire e packagePath cachePath bin platform c))
           = Log Trace (''expected integrity digest '' @ tmpl integ @ '' for ''
                        @ tmpl (snd (declared_hash platform)))
             # snd (snd r) @ (case fst r of Inl ended \<Rightarrow> [] | Inr cacheInfo \<Rightarrow> snd (x cacheInfo))"
  using assms(1-4) unfolding integ_def r_def x_def
  by (simp_all add: acquire_def Let_def split: sum.splits)

lemma acquire_request:
  assumes "Request u p k opts \<in> set (snd (snd (acquire e packagePath cachePath bin platform c)))"
  shows "truthy (bin_baseUrl bin) \<and> pe_skip platform \<noteq> Some True \<and> truthy (pe_fileName platform)
         \<and> fileUrl_of bin platform = Inr u \<and> p = cachePath
         \<and> k = ''xpm:binaries:'' @ tmpl (pe_fileName platform)
         \<and> opts = integrity_of (fst (declared_hash platform)) (snd (declared_hash platform))
         \<and> c cachePath k = None"
proof -
  have g1: "truthy (bin_baseUrl bin)"
    using assms by (auto simp: acquire_def split: if_splits)
  have g2: "pe_skip platform \<noteq> Some True"
    using assms g1 by (auto simp: acquire_def Let_def split: if_splits)
  have g3: "truthy (pe_fileName platform)"
    using assms g1 g2 by (auto simp: acquire_def Let_def split: if_splits)
  obtain fileUrl where fu: "fileUrl_of bin platform = Inr fileUrl"
    using fileUrl_of_Inr[OF g1] by blast
  have "Request u p k opts \<in> set (snd (snd (fetch e cachePath
           (''xpm:binaries:'' @ tmpl (pe_fileName platform)) fileUrl
           (integrity_of (fst (declared_hash platform)) (snd (declared_hash platform))) c)))"
    using assms unfolding acquire_past_guards(3)[OF g1 g2 g3 fu]
    by (auto split: sum.splits dest: clear_and_extract_effects)
  from fetch_effects[OF this] show ?thesis
    using g1 g2 g3 fu by (auto simp: integrity_of_opts)
qed

lemma acquire_missing_baseUrl:
  "fst (acquire e packagePath cachePath bin platform c)
      = Thrown (CliError ''Missing xpack.binaries.baseUrl'' INPUT)
   \<longleftrightarrow> \<not> truthy (bin_baseUrl bin)"
proof (cases "truthy (bin_baseUrl bin)")
  case False
  then show ?thesis by (simp add: acquire_def)
next
  case g1: True
  have "fst (acquire e packagePath cachePath bin platform c)
          \<noteq> Thrown (CliError ''Missing xpack.binaries.baseUrl'' INPUT)"
  proof (cases "pe_skip platform = Some True")
    case True
    then show ?thesis using g1 by (simp add: acquire_def Let_def)
  next
    case g2: False
    show ?thesis
    proof (cases "truthy (pe_fileName platform)")
      case False
      then show ?thesis using g1 g2 by (simp add: acquire_def Let_def)
    next
      case g3: True
      obtain fileUrl where fu: "fileUrl_of bin platform = Inr fileUrl"
        using fileUrl_of_Inr[OF g1] by blast
      show ?thesis
        unfolding acquire_past_guards(1)[OF g1 g2 g3 fu]
        by (auto split: sum.splits dest!: fetch_ended clear_and_extract_thrown)
    qed
  qed
  then show ?thesis using g1 by simp
qed

subsection \<open>The skip flag of the platform entry\<close>

text \<open>
  Claim C1, as the code has it. When the entry of the running platform has
  \<^verbatim>\<open>skip = true\<close> and \<^verbatim>\<open>xpack.binaries.baseUrl\<close> is a non-empty string,
  \<^verbatim>\<open>downloadBinaries\<close> returns without throwing, leaves the cache as it is and does
  nothing but write one warning: no lookup, no request, no removal, no extraction. The
  entry's \<^verbatim>\<open>fileName\<close>, \<^verbatim>\<open>baseUrl\<close>, \<^verbatim>\<open>sha256\<close> and \<^verbatim>\<open>sha512\<close> are arbitrary here, so
  none of them is consulted.
\<close>

theorem skip_is_warn_only:
  assumes "resolved_entry e packagePath = Some (bin, platform)"
    and "pe_skip platform = Some True"
    and "bin_baseUrl bin = Some base" and "base \<noteq> []"
  shows "downloadBinaries e packagePath cachePath c =
           (Returned, c,
            [Log Warn ''No binaries are available for this platform, command ignored.''])"
  using assms
  by (simp add: downloadBinaries_resolved acquire_def truthy_def Let_def)

theorem skip_is_warn_only_witness:
  "downloadBinaries
     (example_env (example_package (example_binaries (Some ''https://example.com/'') None
        ((example_entry None None (Some True))\<lparr> pe_fileName := None \<rparr>))) [] empty_cache)
     ''pkg'' ''cache'' empty_cache
   = (Returned, empty_cache,
      [Log Warn ''No binaries are available for this platform, command ignored.''])"
proof -
  let ?entry = "(example_entry None None (Some True))\<lparr> pe_fileName := None \<rparr>"
  let ?bin = "example_binaries (Some ''https://example.com/'') None ?entry"
  let ?e = "example_env (example_package ?bin) [] empty_cache"
  have r: "resolved_entry ?e ''pkg'' = Some (?bin, ?entry)"
    by (simp add: run_defs)
  have s: "pe_skip ?entry = Some True" by (simp add: example_entry_def)
  have b: "bin_baseUrl ?bin = Some ''https://example.com/''" by (simp add: example_binaries_def)
  have n: "''https://example.com/'' \<noteq> []" by simp
  show ?thesis by (rule skip_is_warn_only[OF r s b n])
qed

text \<open>
  Claim C1 as stated fails: the check of \<^verbatim>\<open>xpack.binaries.baseUrl\<close> (source line 133)
  comes before the check of the skip flag (source line 141), so a manifest with
  \<^verbatim>\<open>skip = true\<close> and no \<^verbatim>\<open>baseUrl\<close> throws the missing-baseUrl error.
\<close>

theorem skip_without_baseUrl_counterexample:
  "fst (downloadBinaries
          (example_env (example_package (example_binaries None None
                          (example_entry None None (Some True)))) [] empty_cache)
          ''pkg'' ''cache'' empty_cache)
     = Thrown (CliError ''Missing xpack.binaries.baseUrl'' INPUT)"
  by (simp add: run_defs)

subsection \<open>The missing-baseUrl error\<close>

text \<open>
  Claim C5, as the code has it. \<^verbatim>\<open>downloadBinaries\<close> throws the missing-baseUrl error
  (class INPUT) exactly when the folder is a package with an entry for the running
  platform and \<^verbatim>\<open>xpack.binaries.baseUrl\<close> is missing or empty, whatever \<^verbatim>\<open>baseUrl\<close> the
  entry itself carries.
\<close>

theorem missing_baseUrl_iff:
  "fst (downloadBinaries e packagePath cachePath c)
      = Thrown (CliError ''Missing xpack.binaries.baseUrl'' INPUT)
   \<longleftrightarrow> (\<exists>bin platform. resolved_entry e packagePath = Some (bin, platform)
          \<and> (bin_baseUrl bin = None \<or> bin_baseUrl bin = Some []))"
proof (cases "resolved_entry e packagePath")
  case None
  then show ?thesis using downloadBinaries_unresolved[OF None, of cachePath c] by simp
next
  case (Some r)
  obtain bin platform where r: "r = (bin, platform)" by (cases r)
  have d: "downloadBinaries e packagePath cachePath c
             = acquire e packagePath cachePath bin platform c"
    using Some r by (simp add: downloadBinaries_resolved)
  have "\<not> truthy (bin_baseUrl bin) \<longleftrightarrow> (bin_baseUrl bin = None \<or> bin_baseUrl bin = Some [])"
    by (cases "bin_baseUrl bin") (auto simp: truthy_def)
  then show ?thesis using Some r d acquire_missing_baseUrl[of e packagePath cachePath bin platform c]
    by simp
qed

theorem missing_baseUrl_iff_witness:
  "fst (downloadBinaries
          (example_env (example_package (example_binaries (Some []) None
                          (example_entry None None None))) [] empty_cache)
          ''pkg'' ''cache'' empty_cache)
     = Thrown (CliError ''Missing xpack.binaries.baseUrl'' INPUT)
   \<and> fst (downloadBinaries
          (example_env (example_package (example_binaries (Some ''https://example.com/'') None
                          (example_entry None None None))) [] empty_cache)
          ''pkg'' ''cache'' empty_cache)
     \<noteq> Thrown (CliError ''Missing xpack.binaries.baseUrl'' INPUT)"
proof -
  let ?entry = "example_entry None None None"
  let ?bin1 = "example_binaries (Some []) None ?entry"
  let ?bin2 = "example_binaries (Some ''https://example.com/'') None ?entry"
  let ?e1 = "example_env (example_package ?bin1) [] empty_cache"
  let ?e2 = "example_env (example_package ?bin2) [] empty_cache"
  have r1: "resolved_entry ?e1 ''pkg'' = Some (?bin1, ?entry)" by (simp add: run_defs)
  have r2: "resolved_entry ?e2 ''pkg'' = Some (?bin2, ?entry)" by (simp add: run_defs)
  have b1: "bin_baseUrl ?bin1 = Some []" by (simp add: example_binaries_def)
  have b2: "bin_baseUrl ?bin2 = Some ''https://example.com/''" by (simp add: example_binaries_def)
  show ?thesis
    using missing_baseUrl_iff[of ?e1 "''pkg''" "''cache''" empty_cache]
          missing_baseUrl_iff[of ?e2 "''pkg''" "''cache''" empty_cache]
          r1 r2 b1 b2
    by simp
qed

text \<open>
  Claim C5 as stated fails: an entry that carries its own \<^verbatim>\<open>baseUrl\<close> does not save
  the operation when \<^verbatim>\<open>xpack.binaries.baseUrl\<close> is missing.
\<close>

theorem override_without_baseUrl_counterexample:
  "fst (downloadBinaries
          (example_env (example_package (example_binaries None None
                          (example_entry (Some ''https://example.com/'') None None))) [] empty_cache)
          ''pkg'' ''cache'' empty_cache)
     = Thrown (CliError ''Missing xpack.binaries.baseUrl'' INPUT)"
  by (simp add: run_defs)

subsection \<open>A rejected download\<close>

text \<open>
  Claim C3. For a manifest whose platform entry declares a \<^verbatim>\<open>sha256\<close> digest: if
  \<^verbatim>\<open>downloadBinaries\<close> makes a download request and \<^verbatim>\<open>cacheArchive\<close> rejects for it (the
  cache store reports the integrity mismatch as an error of its stream), then
  \<^verbatim>\<open>downloadBinaries\<close> throws \<^verbatim>\<open>Download failed.\<close> (class INPUT), the digest handed to the
  cache store was the declared one, and the destination folder is neither removed nor
  extracted into: the removal comes only after a cache entry was found.
\<close>

theorem rejected_download_leaves_destination:
  assumes "resolved_entry e packagePath = Some (bin, platform)"
    and "pe_sha256 platform = Some h" and "h \<noteq> []"
    and "Request url cp key opts \<in> set (snd (snd (downloadBinaries e packagePath cachePath c)))"
    and "fst (cacheArchive e url cp key opts c) = Rejected err"
  shows "fst (downloadBinaries e packagePath cachePath c)
           = Thrown (CliError ''Download failed.'' INPUT)
         \<and> opts = Some (''sha256-'' @ base64 (hex_decode h))
         \<and> Rimraf dest \<notin> set (snd (snd (downloadBinaries e packagePath cachePath c)))
         \<and> Decompress ipath dest strip
              \<notin> set (snd (snd (downloadBinaries e packagePath cachePath c)))"
proof -
  have d: "downloadBinaries e packagePath cachePath c
             = acquire e packagePath cachePath bin platform c"
    using assms(1) by (rule downloadBinaries_resolved)
  have req: "Request url cp key opts
               \<in> set (snd (snd (acquire e packagePath cachePath bin platform c)))"
    using assms(4) d by simp
  note f = acquire_request[OF req]
  have g1: "truthy (bin_baseUrl bin)" and g2: "pe_skip platform \<noteq> Some True"
    and g3: "truthy (pe_fileName platform)" and fu: "fileUrl_of bin platform = Inr url"
    and cp: "cp = cachePath" and key: "key = ''xpm:binaries:'' @ tmpl (pe_fileName platform)"
    and opts: "opts = integrity_of (fst (declared_hash platform)) (snd (declared_hash platform))"
    and miss: "c cachePath key = None"
    using f by blast+
  have o: "opts = Some (''sha256-'' @ base64 (hex_decode h))"
    using opts assms(2,3) by (simp add: declared_hash_def truthy_def integrity_of_def tmpl_def)
  have rej: "fst (fetch e cachePath key url opts c) = Inl (Thrown (CliError ''Download failed.'' INPUT))"
    using fetch_rejected[of c cachePath key e url opts err] miss assms(5) cp o
    by (simp add: truthy_def)
  have out: "fst (acquire e packagePath cachePath bin platform c)
               = Thrown (CliError ''Download failed.'' INPUT)"
    unfolding acquire_past_guards(1)[OF g1 g2 g3 fu] using rej key opts by simp
  have fx: "snd (snd (acquire e packagePath cachePath bin platform c))
              = Log Trace (''expected integrity digest '' @ tmpl opts @ '' for ''
                           @ tmpl (snd (declared_hash platform)))
                # snd (snd (fetch e cachePath key url opts c))"
    unfolding acquire_past_guards(3)[OF g1 g2 g3 fu] using rej key opts by simp
  have "Rimraf dest \<notin> set (snd (snd (acquire e packagePath cachePath bin platform c)))"
    unfolding fx using fetch_effects[of "Rimraf dest" e cachePath key url opts c] by auto
  moreover have "Decompress ipath dest strip
                   \<notin> set (snd (snd (acquire e packagePath cachePath bin platform c)))"
    unfolding fx using fetch_effects[of "Decompress ipath dest strip" e cachePath key url opts c]
    by auto
  ultimately show ?thesis using out o d by simp
qed

theorem rejected_download_leaves_destination_witness:
  "fst (downloadBinaries
          (example_env (example_package (example_binaries (Some ''https://example.com/'') None
                          (example_entry None (Some ''4d616e'') None)))
             [(CacheWrite, Error ''EINTEGRITY'')] empty_cache)
          ''pkg'' ''cache'' empty_cache)
     = Thrown (CliError ''Download failed.'' INPUT)
   \<and> Rimraf ''pkg/.content''
       \<notin> set (snd (snd (downloadBinaries
          (example_env (example_package (example_binaries (Some ''https://example.com/'') None
                          (example_entry None (Some ''4d616e'') None)))
             [(CacheWrite, Error ''EINTEGRITY'')] empty_cache)
          ''pkg'' ''cache'' empty_cache)))"
proof -
  let ?entry = "example_entry None (Some ''4d616e'') None"
  let ?bin = "example_binaries (Some ''https://example.com/'') None ?entry"
  let ?e = "example_env (example_package ?bin) [(CacheWrite, Error ''EINTEGRITY'')] empty_cache"
  have r: "resolved_entry ?e ''pkg'' = Some (?bin, ?entry)" by (simp add: run_defs)
  have s: "pe_sha256 ?entry = Some ''4d616e''" by (simp add: example_entry_def)
  have n: "''4d616e'' \<noteq> []" by simp
  have q: "Request ''https://example.com/x.tar.gz'' ''cache'' ''xpm:binaries:x.tar.gz''
             (Some ''sha256-TWFu'')
             \<in> set (snd (snd (downloadBinaries ?e ''pkg'' ''cache'' empty_cache)))"
    by (simp add: run_defs unhex_def b64_def)
  have j: "fst (cacheArchive ?e ''https://example.com/x.tar.gz'' ''cache''
             ''xpm:binaries:x.tar.gz'' (Some ''sha256-TWFu'') empty_cache) = Rejected ''EINTEGRITY''"
    by (simp add: run_defs)
  from rejected_download_leaves_destination[OF r s n q j, of "''pkg/.content''"]
  show ?thesis by simp
qed

subsection \<open>The strip depth\<close>

text \<open>
  Claim C4, evaluated. For \<^verbatim>\<open>xpack.binaries.skip = "abc"\<close> the strip depth is not 0:
  \<^verbatim>\<open>parseInt\<close> returns \<^verbatim>\<open>NaN\<close> without throwing, the \<^verbatim>\<open>catch\<close> block is not entered, the
  log says \<^verbatim>\<open>skip NaN levels\<close> and \<^verbatim>\<open>decompress\<close> is called with \<^verbatim>\<open>strip: NaN\<close>.
\<close>

theorem skip_NaN_evaluation:
  "skip_levels (example_binaries (Some ''https://example.com/'') (Some (SkipString ''abc''))
                  (example_entry None None None)) = NaN
   \<and> snd (snd (downloadBinaries
          (example_env (example_package (example_binaries (Some ''https://example.com/'')
                          (Some (SkipString ''abc'')) (example_entry None None None)))
             [] full_cache)
          ''pkg'' ''cache'' full_cache))
     = [Log Trace ''expected integrity digest undefined for undefined'',
        Log Trace ''getting cacache info(cache, xpm:binaries:x.tar.gz)...'',
        GetInfo ''cache'' ''xpm:binaries:x.tar.gz'',
        Log Trace ''skip NaN levels'',
        Log Trace ''rimraf pkg/.content'',
        Rimraf ''pkg/.content'',
        Log Trace ''ipath blob'',
        Log Info (''Extracting '' @ [CHR 0x27] @ ''x.tar.gz'' @ [CHR 0x27] @ ''...''),
        Decompress ''blob'' ''pkg/.content'' NaN,
        Log Info ''3 files extracted.'']"
  by (simp add: run_defs parseInt_def is_space_def digit_value_def number_toString_def)

subsection \<open>A malformed checksum\<close>

text \<open>
  Claim C6 as stated fails: with the malformed checksum \<^verbatim>\<open>zz\<close> nothing fails at the
  integrity step. The digest is \<^verbatim>\<open>sha256-\<close> (no bytes), the download is requested with
  it, and the operation returns.
\<close>

theorem malformed_hex_counterexample:
  "fst (downloadBinaries
          (example_env (example_package (example_binaries (Some ''https://example.com/'') None
                          (example_entry None (Some ''zz'') None)))
             [(CacheWrite, Integrity ''sha256-47DEQpj8HBSa+/TImW+5JCeuQeRkm5NMpJWZG3hSuFU=''),
              (CacheWrite, Close)] full_cache)
          ''pkg'' ''cache'' empty_cache) = Returned
   \<and> Request ''https://example.com/x.tar.gz'' ''cache'' ''xpm:binaries:x.tar.gz'' (Some ''sha256-'')
       \<in> set (snd (snd (downloadBinaries
          (example_env (example_package (example_binaries (Some ''https://example.com/'') None
                          (example_entry None (Some ''zz'') None)))
             [(CacheWrite, Integrity ''sha256-47DEQpj8HBSa+/TImW+5JCeuQeRkm5NMpJWZG3hSuFU=''),
              (CacheWrite, Close)] full_cache)
          ''pkg'' ''cache'' empty_cache)))"
  by (simp add: run_defs unhex_def)

subsection \<open>The download URL\<close>

text \<open>
  Claim C9, as the code has it. For a resolved platform entry that is not skipped and
  has a non-empty \<^verbatim>\<open>fileName\<close>, when \<^verbatim>\<open>xpack.binaries.baseUrl\<close> is present and
  non-empty: the effective base is the entry's own \<^verbatim>\<open>baseUrl\<close> when that is present
  and non-empty, otherwise \<^verbatim>\<open>xpack.binaries.baseUrl\<close>; a \<^verbatim>\<open>/\<close> is appended when the
  base does not end in one; the URL is the base followed by the file name. When the
  cache does not know the file, this URL is the one announced in the log and the one
  requested, and no other URL is requested.
\<close>

theorem download_url_assembly:
  assumes "resolved_entry e packagePath = Some (bin, platform)"
    and "bin_baseUrl bin = Some commonBase" and "commonBase \<noteq> []"
    and "pe_skip platform \<noteq> Some True"
    and "pe_fileName platform = Some fileName" and "fileName \<noteq> []"
    and "c cachePath (''xpm:binaries:'' @ fileName) = None"
  shows "let effectiveBase = (case pe_baseUrl platform of
                               None \<Rightarrow> commonBase
                             | Some b \<Rightarrow> if b = [] then commonBase else b);
             url = (if last effectiveBase = CHR ''/'' then effectiveBase
                    else effectiveBase @ ''/'') @ fileName;
             fx = snd (snd (downloadBinaries e packagePath cachePath c))
         in Log Info (''Downloading '' @ url @ ''...'') \<in> set fx
            \<and> (\<exists>opts. Request url cachePath (''xpm:binaries:'' @ fileName) opts \<in> set fx)
            \<and> (Request u p k opt \<in> set fx \<longrightarrow> u = url)"
proof -
  define effectiveBase where "effectiveBase =
     (case pe_baseUrl platform of None \<Rightarrow> commonBase
      | Some b \<Rightarrow> if b = [] then commonBase else b)"
  define url where "url = (if last effectiveBase = CHR ''/'' then effectiveBase
                           else effectiveBase @ ''/'') @ fileName"
  have nonempty: "effectiveBase \<noteq> []"
    using assms(3) by (auto simp: effectiveBase_def split: option.splits)
  have ew: "endsWith effectiveBase CHR ''/'' \<longleftrightarrow> last effectiveBase = CHR ''/''"
    using nonempty by (cases effectiveBase rule: rev_cases) (auto simp: endsWith_def)
  have oe: "or_else (pe_baseUrl platform) (bin_baseUrl bin) = Some effectiveBase"
    using assms(2) by (auto simp: or_else_def truthy_def effectiveBase_def split: option.splits)
  have fu: "fileUrl_of bin platform = Inr url"
    using oe ew assms(5) by (simp add: fileUrl_of_def url_def tmpl_def)
  have g1: "truthy (bin_baseUrl bin)" using assms(2,3) by (simp add: truthy_def)
  have g3: "truthy (pe_fileName platform)" using assms(5,6) by (simp add: truthy_def)
  have d: "downloadBinaries e packagePath cachePath c
             = acquire e packagePath cachePath bin platform c"
    using assms(1) by (rule downloadBinaries_resolved)
  define fx where "fx = snd (snd (downloadBinaries e packagePath cachePath c))"
  define integ where
    "integ = integrity_of (fst (declared_hash platform)) (snd (declared_hash platform))"
  have sub: "set (snd (snd (fetch e cachePath (''xpm:binaries:'' @ fileName) url integ c)))
               \<subseteq> set fx"
    unfolding fx_def d acquire_past_guards(3)[OF g1 assms(4) g3 fu]
    using assms(5) by (auto simp: tmpl_def integ_def)
  have in_fetch: "Log Info (''Downloading '' @ url @ ''...'')
                    \<in> set (snd (snd (fetch e cachePath (''xpm:binaries:'' @ fileName) url integ c)))"
    and "Request url cachePath (''xpm:binaries:'' @ fileName) integ
           \<in> set (snd (snd (fetch e cachePath (''xpm:binaries:'' @ fileName) url integ c)))"
    using assms(7)
    by (auto simp: fetch_def Let_def cacheArchive_def integ_def integrity_of_opts
          split: awaited.splits option.splits)
  then have a: "Log Info (''Downloading '' @ url @ ''...'') \<in> set fx"
    and b: "\<exists>opts. Request url cachePath (''xpm:binaries:'' @ fileName) opts \<in> set fx"
    using sub by auto
  have c: "Request u p k opt \<in> set fx \<longrightarrow> u = url"
  proof
    assume "Request u p k opt \<in> set fx"
    then have "Request u p k opt \<in> set (snd (snd (acquire e packagePath cachePath bin platform c)))"
      by (simp add: fx_def d)
    from acquire_request[OF this] show "u = url" using fu by simp
  qed
  show ?thesis
    using a b c unfolding Let_def fx_def url_def effectiveBase_def by blast
qed

theorem download_url_assembly_witness:
  "\<exists>opts. Request ''https://example.com/x.tar.gz'' ''cache'' ''xpm:binaries:x.tar.gz'' opts
     \<in> set (snd (snd (downloadBinaries
          (example_env (example_package (example_binaries (Some ''https://fallback.com/'') None
                          (example_entry (Some ''https://example.com'') None None)))
             [(CacheWrite, Integrity ''sha256-TWFu''), (CacheWrite, Close)] full_cache)
          ''pkg'' ''cache'' empty_cache)))"
proof -
  let ?entry = "example_entry (Some ''https://example.com'') None None"
  let ?bin = "example_binaries (Some ''https://fallback.com/'') None ?entry"
  let ?e = "example_env (example_package ?bin)
              [(CacheWrite, Integrity ''sha256-TWFu''), (CacheWrite, Close)] full_cache"
  have r: "resolved_entry ?e ''pkg'' = Some (?bin, ?entry)" by (simp add: run_defs)
  have b: "bin_baseUrl ?bin = Some ''https://fallback.com/''" by (simp add: example_binaries_def)
  have bn: "''https://fallback.com/'' \<noteq> []" by simp
  have s: "pe_skip ?entry \<noteq> Some True" by (simp add: example_entry_def)
  have f: "pe_fileName ?entry = Some ''x.tar.gz''" by (simp add: example_entry_def)
  have fn: "''x.tar.gz'' \<noteq> []" by simp
  have m: "empty_cache ''cache'' (''xpm:binaries:'' @ ''x.tar.gz'') = None"
    by (simp add: empty_cache_def)
  from download_url_assembly[where c = empty_cache and cachePath = "''cache''", OF r b bn s f fn m]
  show ?thesis by (simp add: Let_def example_entry_def)
qed

text \<open>
  Claim C9 as stated fails twice. An entry with a \<^verbatim>\<open>fileName\<close> and its own \<^verbatim>\<open>baseUrl\<close>
  gets no URL at all when \<^verbatim>\<open>xpack.binaries.baseUrl\<close> is missing: the operation throws
  the missing-baseUrl error and requests nothing. And an entry whose own \<^verbatim>\<open>baseUrl\<close>
  is the empty string does not get the URL \<^verbatim>\<open>/x.tar.gz\<close>: the empty string is falsy,
  so the base is \<^verbatim>\<open>xpack.binaries.baseUrl\<close>.
\<close>

theorem download_url_counterexample:
  "downloadBinaries
     (example_env (example_package (example_binaries None None
                     (example_entry (Some ''https://example.com'') None None))) [] empty_cache)
     ''pkg'' ''cache'' empty_cache
   = (Thrown (CliError ''Missing xpack.binaries.baseUrl'' INPUT), empty_cache, [])
   \<and> Request ''https://fallback.com/x.tar.gz'' ''cache'' ''xpm:binaries:x.tar.gz'' None
       \<in> set (snd (snd (downloadBinaries
          (example_env (example_package (example_binaries (Some ''https://fallback.com/'') None
                          (example_entry (Some []) None None))) [] empty_cache)
          ''pkg'' ''cache'' empty_cache)))
   \<and> Request ''/x.tar.gz'' ''cache'' ''xpm:binaries:x.tar.gz'' None
       \<notin> set (snd (snd (downloadBinaries
          (example_env (example_package (example_binaries (Some ''https://fallback.com/'') None
                          (example_entry (Some []) None None))) [] empty_cache)
          ''pkg'' ''cache'' empty_cache)))"
  by (simp add: run_defs)

end
